theory Spec2Isabelle
  imports Main
begin

section \<open>Values of the host language\<close>

text \<open>
  The values that flow through \<open>cleanEnv\<close>: the primitives, the module-private symbol
  \<open>testOnlySymbol\<close> (no code outside the module can build it, so it has a constructor of
  its own), and plain objects, known only by their identity. Numbers are modelled as
  integers, with \<open>NaN\<close> apart because \<open>===\<close> treats it specially.
\<close>

datatype jsval =
    JUndefined
  | JNull
  | JBool bool
  | JNum int
  | JNaN
  | JStr string
  | TestOnlySymbol
  | JObj nat

text \<open>What a \<open>throw\<close> carries: the library's two error classes, the built-in
  \<open>TypeError\<close>, each with its message, or any other thrown value.\<close>

datatype js_error =
    EnvError string
  | EnvMissingError string
  | TypeError string
  | Thrown jsval

text \<open>\<open>a === b\<close>: identity on every value of the model, except that \<open>NaN\<close> is not
  equal to itself.\<close>

definition strict_eq :: "jsval \<Rightarrow> jsval \<Rightarrow> bool" where
  "strict_eq a b = (a = b \<and> a \<noteq> JNaN)"

text \<open>\<open>a ?? b\<close>: \<open>b\<close> when \<open>a\<close> is \<open>null\<close> or \<open>undefined\<close>, else \<open>a\<close>.\<close>

definition nullish :: "jsval \<Rightarrow> bool" where
  "nullish v = (v = JUndefined \<or> v = JNull)"

definition nullish_coalesce :: "jsval \<Rightarrow> jsval \<Rightarrow> jsval" where
  "nullish_coalesce a b = (if nullish a then b else a)"

text \<open>Truthiness, as \<open>if (v)\<close> and \<open>v ? a : b\<close> test it.\<close>

fun truthy :: "jsval \<Rightarrow> bool" where
  "truthy JUndefined = False"
| "truthy JNull = False"
| "truthy (JBool b) = b"
| "truthy (JNum n) = (n \<noteq> 0)"
| "truthy JNaN = False"
| "truthy (JStr s) = (s \<noteq> [])"
| "truthy TestOnlySymbol = True"
| "truthy (JObj i) = True"

subsection \<open>Conversion to strings, as template literals do it\<close>

fun digits_of_nat :: "nat \<Rightarrow> string" where
  "digits_of_nat n =
     (if n < 10 then [char_of (48 + n)]
      else digits_of_nat (n div 10) @ [char_of (48 + n mod 10)])"

declare digits_of_nat.simps [simp del]

definition string_of_int :: "int \<Rightarrow> string" where
  "string_of_int i = (if i < 0 then CHR ''-'' # digits_of_nat (nat (- i)) else digits_of_nat (nat i))"

definition symbol_to_string_error :: js_error where
  "symbol_to_string_error = TypeError ''Cannot convert a Symbol value to a string''"

text \<open>\<open>`${v}`\<close>: a symbol cannot be converted and raises a \<open>TypeError\<close>; a plain object
  prints as \<open>[object Object]\<close>.\<close>

fun to_string :: "jsval \<Rightarrow> js_error + string" where
  "to_string JUndefined = Inr ''undefined''"
| "to_string JNull = Inr ''null''"
| "to_string (JBool b) = Inr (if b then ''true'' else ''false'')"
| "to_string (JNum n) = Inr (string_of_int n)"
| "to_string JNaN = Inr ''NaN''"
| "to_string (JStr s) = Inr s"
| "to_string TestOnlySymbol = Inl symbol_to_string_error"
| "to_string (JObj i) = Inr ''[object Object]''"

text \<open>The element of an array as \<open>Array.prototype.join\<close> prints it: \<open>undefined\<close> and
  \<open>null\<close> print as the empty string.\<close>

definition join_element :: "jsval \<Rightarrow> js_error + string" where
  "join_element v = (if nullish v then Inr [] else to_string v)"

text \<open>\<open>`${array}`\<close>: the elements joined with commas, converted from left to right.\<close>

fun array_to_string :: "jsval list \<Rightarrow> js_error + string" where
  "array_to_string [] = Inr []"
| "array_to_string [v] = join_element v"
| "array_to_string (v # w # vs) =
     (case join_element v of
        Inl e \<Rightarrow> Inl e
      | Inr s \<Rightarrow> (case array_to_string (w # vs) of
                   Inl e \<Rightarrow> Inl e
                 | Inr t \<Rightarrow> Inr (s @ '','' @ t)))"

definition quoted :: "string \<Rightarrow> string" where
  "quoted s = CHR 0x22 # s @ [CHR 0x22]"

section \<open>Specs\<close>

text \<open>The \<open>_parse\<close> field of a spec: a function, which returns a value or throws, or
  something that is not a function.\<close>

datatype parse_field =
    NotFunction
  | Function "jsval \<Rightarrow> js_error + jsval"

text \<open>The \<open>choices\<close> field of a spec, when the spec has one: an array, or some other
  value.\<close>

datatype choices_field =
    Array "jsval list"
  | NonArray jsval

text \<open>
  A spec object. An optional field is \<open>None\<close> when the object has no such own property;
  \<open>Some JUndefined\<close> is a property declared with the value \<open>undefined\<close>.
\<close>

record spec =
  parse :: parse_field
  default_val :: "jsval option"
  devDefault :: "jsval option"
  choices :: "choices_field option"
  desc :: "string option"
  example :: "string option"
  docs :: "string option"

text \<open>Reading an optional property: \<open>undefined\<close> when the object does not have it.\<close>

definition get_prop :: "jsval option \<Rightarrow> jsval" where
  "get_prop p = (case p of None \<Rightarrow> JUndefined | Some v \<Rightarrow> v)"

definition hasOwnProperty :: "'a option \<Rightarrow> bool" where
  "hasOwnProperty p = (p \<noteq> None)"

section \<open>validateVar\<close>

text \<open>\<open>if (spec.choices) { ... }\<close>: nothing is checked when the field is absent or
  falsy; a truthy value that is not an array raises a \<open>TypeError\<close>; an array must
  include the value (\<open>includes\<close> compares with SameValueZero, which is identity on the
  values of the model), and the message of the \<open>EnvError\<close> prints the value, then the
  array.\<close>

definition check_choices :: "string \<Rightarrow> choices_field option \<Rightarrow> jsval \<Rightarrow> js_error option" where
  "check_choices name c v =
     (case c of
        None \<Rightarrow> None
      | Some (NonArray x) \<Rightarrow>
          (if truthy x
           then Some (TypeError (quoted ''choices'' @ '' must be an array (in spec for ''
                                   @ quoted name @ '')''))
           else None)
      | Some (Array cs) \<Rightarrow>
          (if v \<in> set cs then None
           else (case to_string v of
                   Inl e \<Rightarrow> Some e
                 | Inr sv \<Rightarrow> (case array_to_string cs of
                                Inl e \<Rightarrow> Some e
                              | Inr sc \<Rightarrow> Some (EnvError (''Value '' @ quoted sv
                                             @ '' not in choices ['' @ sc @ '']''))))))"

definition validateVar :: "string \<Rightarrow> spec \<Rightarrow> jsval \<Rightarrow> js_error + jsval" where
  "validateVar name s rawValue =
     (case parse s of
        NotFunction \<Rightarrow> Inl (EnvError (''Invalid spec for '' @ quoted name))
      | Function f \<Rightarrow>
          (case f rawValue of
             Inl e \<Rightarrow> Inl e
           | Inr v \<Rightarrow>
               (case check_choices name (choices s) v of
                  Some e \<Rightarrow> Inl e
                | None \<Rightarrow>
                    if nullish v
                    then Inl (EnvError (''Invalid value for env var '' @ quoted name))
                    else Inr v)))"

section \<open>formatSpecDescription\<close>

definition formatSpecDescription :: "spec \<Rightarrow> string" where
  "formatSpecDescription s =
     (let egText = (case example s of
                      None \<Rightarrow> []
                    | Some e \<Rightarrow> if e \<noteq> [] then '' (eg. '' @ quoted e @ '')'' else []);
          docsText = (case docs s of
                        None \<Rightarrow> []
                      | Some d \<Rightarrow> if d \<noteq> [] then ''. See '' @ d else [])
      in (case desc s of None \<Rightarrow> ''undefined'' | Some d \<Rightarrow> d) @ egText @ docsText)"

section \<open>Reading the environment\<close>

text \<open>The environment object: a property that is absent reads as \<open>undefined\<close>.\<close>

type_synonym environment = "string \<Rightarrow> jsval option"

definition readRawEnvValue :: "environment \<Rightarrow> string \<Rightarrow> jsval" where
  "readRawEnvValue env k = get_prop (env k)"

definition isTestOnlySymbol :: "jsval \<Rightarrow> bool" where
  "isTestOnlySymbol v = (v = TestOnlySymbol)"

section \<open>The body of the loop of cleanEnv\<close>

definition usingDevDefault :: "jsval \<Rightarrow> spec \<Rightarrow> bool" where
  "usingDevDefault rawNodeEnv s =
     (\<not> strict_eq rawNodeEnv (JStr ''production'') \<and> hasOwnProperty (devDefault s))"

definition devDefaultOf :: "jsval \<Rightarrow> spec \<Rightarrow> jsval" where
  "devDefaultOf rawNodeEnv s =
     (if usingDevDefault rawNodeEnv s then get_prop (devDefault s) else JUndefined)"

definition rawValueOf :: "environment \<Rightarrow> jsval \<Rightarrow> string \<Rightarrow> spec \<Rightarrow> jsval" where
  "rawValueOf env rawNodeEnv k s =
     nullish_coalesce (readRawEnvValue env k)
       (if strict_eq (devDefaultOf rawNodeEnv s) JUndefined
        then get_prop (default_val s)
        else devDefaultOf rawNodeEnv s)"

definition usingFalsyDefault :: "environment \<Rightarrow> jsval \<Rightarrow> string \<Rightarrow> spec \<Rightarrow> bool" where
  "usingFalsyDefault env rawNodeEnv k s =
     ((hasOwnProperty (default_val s)
         \<and> strict_eq (get_prop (default_val s)) (rawValueOf env rawNodeEnv k s))
      \<or> (usingDevDefault rawNodeEnv s
         \<and> strict_eq (devDefaultOf rawNodeEnv s) (rawValueOf env rawNodeEnv k s)))"

text \<open>
  The \<open>try\<close> block for one key: \<open>Inl e\<close> when it throws \<open>e\<close>, \<open>Inr (Some v)\<close> when it
  assigns \<open>v\<close> to \<open>output[k]\<close>, \<open>Inr None\<close> when it leaves the key out.
\<close>

definition try_key :: "environment \<Rightarrow> jsval \<Rightarrow> string \<Rightarrow> spec \<Rightarrow> js_error + jsval option" where
  "try_key env rawNodeEnv k s =
     (let rawValue = rawValueOf env rawNodeEnv k s in
      if isTestOnlySymbol rawValue then Inl (EnvMissingError (formatSpecDescription s))
      else if strict_eq rawValue JUndefined then
        (if \<not> usingFalsyDefault env rawNodeEnv k s
         then Inl (EnvMissingError (formatSpecDescription s))
         else Inr None)
      else (case validateVar k s rawValue of
              Inl e \<Rightarrow> Inl e
            | Inr v \<Rightarrow> Inr (Some v)))"

section \<open>The validation loop\<close>

text \<open>
  \<open>specs\<close> is the spec object as the list of its properties, in the order in which
  \<open>Object.keys\<close> lists them; the keys of an object are distinct. \<open>output\<close> and
  \<open>errors\<close> are the two objects that the loop fills.

  A failure of the \<open>try\<close> block is rethrown when \<open>options.reporter === null\<close>, which
  ends the loop and the call, and is stored in \<open>errors[k]\<close> otherwise.
\<close>

datatype reporter_effect = Returns | Throws js_error | Exits

record report =
  errors :: "string \<Rightarrow> js_error option"
  env :: "string \<Rightarrow> jsval option"

datatype reporter_field =
    ReporterAbsent
  | ReporterNull
  | ReporterFunction "report \<Rightarrow> reporter_effect"

fun validation_loop ::
  "environment \<Rightarrow> jsval \<Rightarrow> reporter_field \<Rightarrow> (string \<times> spec) list
     \<Rightarrow> (string \<Rightarrow> jsval option) \<times> (string \<Rightarrow> js_error option)
     \<Rightarrow> js_error + (string \<Rightarrow> jsval option) \<times> (string \<Rightarrow> js_error option)" where
  "validation_loop environment rawNodeEnv rep [] (output, errs) = Inr (output, errs)"
| "validation_loop environment rawNodeEnv rep ((k, s) # rest) (output, errs) =
     (case try_key environment rawNodeEnv k s of
        Inr None \<Rightarrow> validation_loop environment rawNodeEnv rep rest (output, errs)
      | Inr (Some v) \<Rightarrow> validation_loop environment rawNodeEnv rep rest (output(k \<mapsto> v), errs)
      | Inl err \<Rightarrow>
          if rep = ReporterNull then Inl err
          else validation_loop environment rawNodeEnv rep rest (output, errs(k \<mapsto> err)))"

section \<open>Objects, middleware and options\<close>

text \<open>A plain object: its own properties, and whether \<open>Object.freeze\<close> was applied.\<close>

record js_object =
  props :: "string \<Rightarrow> jsval option"
  frozen :: bool

definition Object_freeze :: "js_object \<Rightarrow> js_object" where
  "Object_freeze ob = ob\<lparr>frozen := True\<rparr>"

type_synonym middleware_fn = "js_object \<Rightarrow> environment \<Rightarrow> js_error + js_object"

record clean_options =
  reporter :: reporter_field
  middleware :: "middleware_fn list option"

text \<open>\<open>options.middleware.reduce((acc, mw) => mw(acc, environment), output)\<close>; a stage
  that throws ends the call.\<close>

fun reduce_middleware :: "middleware_fn list \<Rightarrow> js_object \<Rightarrow> environment \<Rightarrow> js_error + js_object" where
  "reduce_middleware [] acc environment = Inr acc"
| "reduce_middleware (mw # mws) acc environment =
     (case mw acc environment of
        Inl e \<Rightarrow> Inl e
      | Inr acc' \<Rightarrow> reduce_middleware mws acc' environment)"

text \<open>\<open>if (options.middleware?.length) output = ...reduce...\<close>: the output is left as it
  is when the option is absent or the array is empty.\<close>

definition apply_middleware ::
  "middleware_fn list option \<Rightarrow> js_object \<Rightarrow> environment \<Rightarrow> js_error + js_object" where
  "apply_middleware mws output environment =
     (case mws of
        None \<Rightarrow> Inr output
      | Some ms \<Rightarrow> if length ms \<noteq> 0 then reduce_middleware ms output environment else Inr output)"

section \<open>cleanEnv\<close>

text \<open>
  What a call of \<open>cleanEnv\<close> does that its caller can see: the reporter calls, in order,
  and how the call ends.
\<close>

datatype reporter_id = DefaultReporter | OptionsReporter

datatype event = ReporterCalled reporter_id report

datatype outcome = Returned js_object | Threw js_error | ProcessExited

text \<open>
  \<open>defaultReporter\<close> and \<open>defaultMiddlewares\<close> are imported from modules that are not part
  of the sources at hand, so they are parameters. \<open>options_arg\<close> is \<open>None\<close> when the
  caller passes no third argument; the default value of the parameter,
  \<open>{ middleware: defaultMiddlewares }\<close>, is used then, and only then.
\<close>

definition effective_options :: "middleware_fn list \<Rightarrow> clean_options option \<Rightarrow> clean_options" where
  "effective_options defaultMiddlewares options_arg =
     (case options_arg of
        None \<Rightarrow> \<lparr>reporter = ReporterAbsent, middleware = Some defaultMiddlewares\<rparr>
      | Some opts \<Rightarrow> opts)"

text \<open>\<open>options.reporter || defaultReporter\<close>: the reporter of the options when it is a
  function, the default reporter when it is absent or \<open>null\<close>.\<close>

definition choose_reporter ::
  "(report \<Rightarrow> reporter_effect) \<Rightarrow> reporter_field \<Rightarrow> reporter_id \<times> (report \<Rightarrow> reporter_effect)" where
  "choose_reporter defaultReporter rf =
     (case rf of
        ReporterFunction f \<Rightarrow> (OptionsReporter, f)
      | ReporterNull \<Rightarrow> (DefaultReporter, defaultReporter)
      | ReporterAbsent \<Rightarrow> (DefaultReporter, defaultReporter))"

definition cleanEnv ::
  "(report \<Rightarrow> reporter_effect) \<Rightarrow> middleware_fn list \<Rightarrow> environment \<Rightarrow> (string \<times> spec) list
     \<Rightarrow> clean_options option \<Rightarrow> event list \<times> outcome" where
  "cleanEnv defaultReporter defaultMiddlewares environment specs options_arg =
     (let options = effective_options defaultMiddlewares options_arg;
          rawNodeEnv = readRawEnvValue environment ''NODE_ENV''
      in case validation_loop environment rawNodeEnv (reporter options) specs (Map.empty, Map.empty) of
           Inl err \<Rightarrow> ([], Threw err)
         | Inr (output, errs) \<Rightarrow>
             (let (who, rep) = choose_reporter defaultReporter (reporter options);
                  r = \<lparr>errors = errs, env = output\<rparr>
              in case rep r of
                   Throws e \<Rightarrow> ([ReporterCalled who r], Threw e)
                 | Exits \<Rightarrow> ([ReporterCalled who r], ProcessExited)
                 | Returns \<Rightarrow>
                     (case apply_middleware (middleware options)
                             \<lparr>props = output, frozen = False\<rparr> environment of
                        Inl e \<Rightarrow> ([ReporterCalled who r], Threw e)
                      | Inr ob \<Rightarrow> ([ReporterCalled who r], Returned (Object_freeze ob)))))"

section \<open>testOnly\<close>

text \<open>\<open>testOnly\<close> reads \<open>NODE_ENV\<close> from \<open>process.env\<close>, the environment of the process,
  which is a parameter here.\<close>

definition testOnly :: "environment \<Rightarrow> jsval \<Rightarrow> jsval" where
  "testOnly process_env defaultValueForTests =
     (if strict_eq (readRawEnvValue process_env ''NODE_ENV'') (JStr ''test'')
      then defaultValueForTests
      else TestOnlySymbol)"

section \<open>The default reporter and the default middleware\<close>

text \<open>
  Modelled from the spec: the module \<open>./reporter\<close> is missing. The default reporter does
  nothing when the error map is empty, and ends the process when it is not.
\<close>

definition defaultReporter_model :: "report \<Rightarrow> reporter_effect" where
  "defaultReporter_model r = (if errors r = Map.empty then Returns else Exits)"

text \<open>
  Modelled from the spec: the module \<open>./middleware\<close> is missing. The default catalog adds
  computed boolean accessors for the deployment mode; one stage stands for it here, which
  adds \<open>isProduction\<close>.
\<close>

definition accessorMiddleware :: middleware_fn where
  "accessorMiddleware ob environment =
     Inr (ob\<lparr>props := (props ob)(''isProduction'' \<mapsto>
            JBool (strict_eq (readRawEnvValue environment ''NODE_ENV'') (JStr ''production'')))\<rparr>)"

definition defaultMiddlewares_model :: "middleware_fn list" where
  "defaultMiddlewares_model = [accessorMiddleware]"

section \<open>Concrete inputs\<close>

text \<open>An environment with no variable, one for a service in development, and one in
  production.\<close>

definition no_environment :: environment where
  "no_environment = Map.empty"

definition svc_environment :: environment where
  "svc_environment = [''NAME'' \<mapsto> JStr ''svc'']"

definition production_environment :: environment where
  "production_environment = [''NODE_ENV'' \<mapsto> JStr ''production'']"

text \<open>A parser that accepts every input as it is, as the validator of strings does with
  a string, and one that accepts nothing.\<close>

definition accept_parse :: "jsval \<Rightarrow> js_error + jsval" where
  "accept_parse v = Inr v"

definition reject_parse :: "jsval \<Rightarrow> js_error + jsval" where
  "reject_parse v = Inl (EnvError ''Invalid input'')"

definition plain_spec :: spec where
  "plain_spec = \<lparr>parse = Function accept_parse, default_val = None, devDefault = None,
                  choices = None, desc = None, example = None, docs = None\<rparr>"

text \<open>A spec with a default and a dev-default, and one whose dev-default is declared with
  the value \<open>undefined\<close>.\<close>

definition dev_spec :: spec where
  "dev_spec = plain_spec\<lparr>default_val := Some (JStr ''db.internal''),
                          devDefault := Some (JStr ''localhost'')\<rparr>"

definition devUndefined_spec :: spec where
  "devUndefined_spec = plain_spec\<lparr>default_val := Some (JStr ''db.internal''),
                                   devDefault := Some JUndefined\<rparr>"

text \<open>A spec whose parser rejects every input, and a spec object with two keys.\<close>

definition failing_spec :: spec where
  "failing_spec = plain_spec\<lparr>parse := Function reject_parse\<rparr>"

definition two_specs :: "(string \<times> spec) list" where
  "two_specs = [(''API_KEY'', plain_spec), (''NAME'', plain_spec)]"

text \<open>A reporter that only logs, and the options \<open>{ reporter: null }\<close>.\<close>

definition log_reporter :: "report \<Rightarrow> reporter_effect" where
  "log_reporter r = Returns"

definition throwing_options :: clean_options where
  "throwing_options = \<lparr>reporter = ReporterNull, middleware = None\<rparr>"

text \<open>The environment of a test run; a spec whose default is \<open>testOnly('stub')\<close>, built when
  \<open>process.env\<close> has no \<open>NODE_ENV\<close>; and a spec whose only default is a dev-default declared
  with the value \<open>undefined\<close>.\<close>

definition test_environment :: environment where
  "test_environment = [''NODE_ENV'' \<mapsto> JStr ''test'']"

definition stub_spec :: spec where
  "stub_spec = plain_spec\<lparr>default_val := Some (testOnly no_environment (JStr ''stub'')),
                           desc := Some ''API key'', example := Some ''abc123'',
                           docs := Some ''https://example.com/keys''\<rparr>"

definition optional_spec :: spec where
  "optional_spec = plain_spec\<lparr>devDefault := Some JUndefined\<rparr>"

text \<open>A parser that returns \<open>null\<close>; and specs whose \<open>choices\<close> field is \<open>null\<close>, a string,
  and an array of two modes.\<close>

definition null_parse :: "jsval \<Rightarrow> js_error + jsval" where
  "null_parse v = Inr JNull"

definition null_choices_spec :: spec where
  "null_choices_spec = plain_spec\<lparr>choices := Some (NonArray JNull)\<rparr>"

definition string_choices_spec :: spec where
  "string_choices_spec = plain_spec\<lparr>choices := Some (NonArray (JStr ''develop,production''))\<rparr>"

definition mode_spec :: spec where
  "mode_spec = plain_spec\<lparr>choices := Some (Array [JStr ''develop'', JStr ''production''])\<rparr>"

text \<open>Specs with falsy defaults: the empty string, zero, \<open>false\<close>, and a default declared
  with the value \<open>undefined\<close>; and a spec object with the four of them.\<close>

definition empty_default_spec :: spec where
  "empty_default_spec = plain_spec\<lparr>default_val := Some (JStr '''')\<rparr>"

definition zero_spec :: spec where
  "zero_spec = plain_spec\<lparr>default_val := Some (JNum 0)\<rparr>"

definition false_spec :: spec where
  "false_spec = plain_spec\<lparr>default_val := Some (JBool False)\<rparr>"

definition undefined_default_spec :: spec where
  "undefined_default_spec = plain_spec\<lparr>default_val := Some JUndefined\<rparr>"

definition falsy_specs :: "(string \<times> spec) list" where
  "falsy_specs = [(''GREETING'', empty_default_spec), (''RETRIES'', zero_spec),
                  (''VERBOSE'', false_spec), (''PROXY'', undefined_default_spec)]"

text \<open>The options \<open>{ reporter: logReporter }\<close>, with no \<open>middleware\<close> field; and the object
  that \<open>cleanEnv\<close> returns for the service with the default middleware.\<close>

definition reporter_only_options :: clean_options where
  "reporter_only_options = \<lparr>reporter = ReporterFunction log_reporter, middleware = None\<rparr>"

definition svc_config :: js_object where
  "svc_config = \<lparr>props = [''NAME'' \<mapsto> JStr ''svc'', ''isProduction'' \<mapsto> JBool False],
                  frozen = True\<rparr>"

section \<open>Properties of the validation loop\<close>

text \<open>Unfolding the definitions that resolve the raw value of a key.\<close>

lemmas eval_defs =
  rawValueOf_def devDefaultOf_def usingDevDefault_def usingFalsyDefault_def
  readRawEnvValue_def get_prop_def hasOwnProperty_def strict_eq_def nullish_def
  nullish_coalesce_def isTestOnlySymbol_def

text \<open>The loop over a concatenation runs the first part, then the second from the state
  the first leaves, unless the first throws.\<close>

lemma validation_loop_append:
  "validation_loop environment n rep (xs @ ys) st =
     (case validation_loop environment n rep xs st of
        Inl e \<Rightarrow> Inl e
      | Inr st' \<Rightarrow> validation_loop environment n rep ys st')"
proof (induction xs arbitrary: st)
  case Nil
  show ?case by (cases st) simp
next
  case (Cons x xs)
  obtain k s where x: "x = (k, s)" by (cases x)
  obtain out errs where st: "st = (out, errs)" by (cases st)
  show ?case unfolding x st
    by (simp add: Cons.IH split: sum.splits option.splits)
qed

lemma validation_loop_total:
  "rep \<noteq> ReporterNull \<Longrightarrow>
     \<exists>out errs. validation_loop environment n rep specs (out0, errs0) = Inr (out, errs)"
proof (induction specs arbitrary: out0 errs0)
  case Nil
  show ?case by simp
next
  case (Cons x xs)
  obtain k s where x: "x = (k, s)" by (cases x)
  show ?case unfolding x using Cons.IH [OF Cons.prems]
    by (simp add: Cons.prems split: sum.splits option.splits)
qed

lemma validation_loop_frame:
  "validation_loop environment n rep specs (out0, errs0) = Inr (out, errs) \<Longrightarrow>
     k \<notin> fst ` set specs \<Longrightarrow> out k = out0 k \<and> errs k = errs0 k"
proof (induction specs arbitrary: out0 errs0)
  case Nil
  then show ?case by simp
next
  case (Cons x xs)
  obtain k' s where x: "x = (k', s)" by (cases x)
  from Cons.prems(2) have ne: "k \<noteq> k'" and notin: "k \<notin> fst ` set xs"
    by (auto simp: x)
  from Cons.prems(1) show ?case unfolding x
    using Cons.IH [OF _ notin] ne
    by (auto split: sum.splits option.splits if_splits)
qed

lemma validation_loop_key:
  "distinct (map fst specs) \<Longrightarrow>
   validation_loop environment n rep specs (out0, errs0) = Inr (out, errs) \<Longrightarrow>
   (k, s) \<in> set specs \<Longrightarrow>
     (\<forall>e. try_key environment n k s = Inl e \<longrightarrow>
            rep \<noteq> ReporterNull \<and> errs k = Some e \<and> out k = out0 k)
   \<and> (try_key environment n k s = Inr None \<longrightarrow> out k = out0 k \<and> errs k = errs0 k)
   \<and> (\<forall>v. try_key environment n k s = Inr (Some v) \<longrightarrow> out k = Some v \<and> errs k = errs0 k)"
proof (induction specs arbitrary: out0 errs0)
  case Nil
  then show ?case by simp
next
  case (Cons x xs)
  obtain k' s' where x: "x = (k', s')" by (cases x)
  from Cons.prems(1) have dist: "distinct (map fst xs)" and fresh: "k' \<notin> fst ` set xs"
    by (auto simp: x)
  show ?case
  proof (cases "(k, s) = (k', s')")
    case True
    then have eq: "k' = k" "s' = s" by simp_all
    from fresh have notin: "k \<notin> fst ` set xs" by (simp add: eq)
    have fr: "out k = o0 k \<and> errs k = e0 k"
      if "validation_loop environment n rep xs (o0, e0) = Inr (out, errs)" for o0 e0
      using validation_loop_frame [OF that notin] .
    from Cons.prems(2) show ?thesis unfolding x eq
      by (auto split: sum.splits option.splits if_splits dest: fr)
  next
    case False
    with Cons.prems(3) have mem: "(k, s) \<in> set xs" by (auto simp: x)
    then have "k \<in> fst ` set xs" by force
    with fresh have ne: "k \<noteq> k'" by auto
    from Cons.prems(2) show ?thesis unfolding x
      using Cons.IH [OF dist _ mem] ne
      by (auto split: sum.splits option.splits if_splits)
  qed
qed

lemma validation_loop_prefix:
  "\<forall>(k, s) \<in> set pre. \<not> isl (try_key environment n k s) \<Longrightarrow>
     \<exists>st'. validation_loop environment n rep pre st = Inr st'"
proof (induction pre arbitrary: st)
  case Nil
  show ?case by (cases st) simp
next
  case (Cons x xs)
  obtain k s where x: "x = (k, s)" by (cases x)
  obtain out errs where st: "st = (out, errs)" by (cases st)
  from Cons.prems have ok: "\<not> isl (try_key environment n k s)"
    and rest: "\<forall>(k, s) \<in> set xs. \<not> isl (try_key environment n k s)"
    by (auto simp: x)
  show ?case unfolding x st using ok Cons.IH [OF rest]
    by (auto split: sum.splits option.splits)
qed

text \<open>With \<open>reporter: null\<close> the loop never writes to the error map.\<close>

lemma validation_loop_null_errors:
  "validation_loop environment n ReporterNull specs (out0, errs0) = Inr (out, errs) \<Longrightarrow>
     errs = errs0"
proof (induction specs arbitrary: out0)
  case Nil
  then show ?case by simp
next
  case (Cons x xs)
  obtain k s where x: "x = (k, s)" by (cases x)
  from Cons.prems show ?case unfolding x
    by (auto split: sum.splits option.splits dest: Cons.IH)
qed

section \<open>Properties of cleanEnv\<close>

text \<open>A failure that leaves the loop ends the call before any reporter runs; when the loop
  completes, the chosen reporter is called once with the two objects of the loop.\<close>

lemma cleanEnv_loop_throws:
  "validation_loop environment (readRawEnvValue environment ''NODE_ENV'')
     (reporter (effective_options dm options_arg)) specs (Map.empty, Map.empty) = Inl e \<Longrightarrow>
   cleanEnv dr dm environment specs options_arg = ([], Threw e)"
  by (simp add: cleanEnv_def Let_def)

lemma cleanEnv_loop_returns:
  "validation_loop environment (readRawEnvValue environment ''NODE_ENV'')
     (reporter (effective_options dm options_arg)) specs (Map.empty, Map.empty) = Inr (out, errs) \<Longrightarrow>
   fst (cleanEnv dr dm environment specs options_arg)
     = [ReporterCalled (fst (choose_reporter dr (reporter (effective_options dm options_arg))))
          \<lparr>errors = errs, env = out\<rparr>]"
  by (simp add: cleanEnv_def Let_def split: prod.splits reporter_effect.splits sum.splits)

text \<open>Evaluating the loop body on concrete keys.\<close>

lemmas key_defs =
  try_key_def validateVar_def check_choices_def formatSpecDescription_def Let_def

lemma try_key_API_KEY:
  "try_key svc_environment (readRawEnvValue svc_environment ''NODE_ENV'') ''API_KEY'' plain_spec
     = Inl (EnvMissingError ''undefined'')"
  by (simp add: key_defs eval_defs svc_environment_def plain_spec_def)

lemma try_key_NAME:
  "try_key svc_environment (readRawEnvValue svc_environment ''NODE_ENV'') ''NAME'' plain_spec
     = Inr (Some (JStr ''svc''))"
  by (simp add: key_defs eval_defs svc_environment_def plain_spec_def accept_parse_def)

text \<open>Whatever \<open>cleanEnv\<close> returns went through \<open>Object.freeze\<close>.\<close>

lemma cleanEnv_returned_frozen:
  "cleanEnv dr dm environment specs options_arg = (tr, Returned ob) \<Longrightarrow> frozen ob"
  by (auto simp: cleanEnv_def Let_def Object_freeze_def
      split: sum.splits prod.splits reporter_effect.splits)

text \<open>The call for the service, with no options.\<close>

lemma accessorMiddleware_svc:
  "accessorMiddleware ob svc_environment
     = Inr (ob\<lparr>props := (props ob)(''isProduction'' \<mapsto> JBool False)\<rparr>)"
  by (simp add: accessorMiddleware_def eval_defs svc_environment_def)

lemma cleanEnv_svc_default:
  "cleanEnv defaultReporter_model defaultMiddlewares_model svc_environment
     [(''NAME'', plain_spec)] None
   = ([ReporterCalled DefaultReporter
         \<lparr>errors = Map.empty, env = [''NAME'' \<mapsto> JStr ''svc'']\<rparr>],
      Returned svc_config)"
  by (simp add: cleanEnv_def Let_def effective_options_def try_key_NAME
      choose_reporter_def defaultReporter_model_def apply_middleware_def
      defaultMiddlewares_model_def accessorMiddleware_svc Object_freeze_def svc_config_def)

text \<open>When the reporter returns, the stages of a supplied middleware array run in the order
  of the array, each on the object that the previous one returned and on the environment
  that the caller passed; the frozen result of the last one is returned.\<close>

lemma reduce_middleware_append:
  "reduce_middleware (ms @ ms') acc environment =
     (case reduce_middleware ms acc environment of
        Inl e \<Rightarrow> Inl e
      | Inr acc' \<Rightarrow> reduce_middleware ms' acc' environment)"
  by (induction ms arbitrary: acc) (simp_all split: sum.splits)

lemma cleanEnv_applies_middleware:
  assumes "validation_loop environment (readRawEnvValue environment ''NODE_ENV'')
             (reporter opts) specs (Map.empty, Map.empty) = Inr (out, errs)"
    and "snd (choose_reporter dr (reporter opts)) \<lparr>errors = errs, env = out\<rparr> = Returns"
    and "middleware opts = Some ms"
  shows "snd (cleanEnv dr dm environment specs (Some opts)) =
           (case reduce_middleware ms \<lparr>props = out, frozen = False\<rparr> environment of
              Inl e \<Rightarrow> Threw e
            | Inr ob \<Rightarrow> Returned (Object_freeze ob))"
proof -
  obtain who rp where ch: "choose_reporter dr (reporter opts) = (who, rp)"
    by (cases "choose_reporter dr (reporter opts)")
  with assms(2) have ret: "rp \<lparr>errors = errs, env = out\<rparr> = Returns"
    by simp
  show ?thesis
    by (cases ms)
      (simp_all add: cleanEnv_def Let_def effective_options_def apply_middleware_def
        assms(1,3) ch ret split: sum.splits)
qed

text \<open>The default catalog plays no part in a call that passes an options object.\<close>

lemma cleanEnv_ignores_catalog:
  "cleanEnv dr dm environment specs (Some opts) = cleanEnv dr dm' environment specs (Some opts)"
  by (simp add: cleanEnv_def effective_options_def)

section \<open>Resolution of the raw value\<close>

text \<open>
  C1, as stated, fails: in a mode other than production, with no value in the environment,
  a dev-default declared with the value \<open>undefined\<close> does not take precedence over the
  regular default; the regular default is the resolved value.
\<close>

theorem C1_counterexample:
  "\<not> strict_eq (readRawEnvValue no_environment ''NODE_ENV'') (JStr ''production'')
   \<and> readRawEnvValue no_environment ''DB_HOST'' = JUndefined
   \<and> hasOwnProperty (devDefault devUndefined_spec)
   \<and> rawValueOf no_environment (readRawEnvValue no_environment ''NODE_ENV'') ''DB_HOST''
        devUndefined_spec = JStr ''db.internal''
   \<and> rawValueOf no_environment (readRawEnvValue no_environment ''NODE_ENV'') ''DB_HOST''
        devUndefined_spec \<noteq> get_prop (devDefault devUndefined_spec)"
  by (simp add: eval_defs no_environment_def devUndefined_spec_def plain_spec_def)

text \<open>
  C1, amended. For every key and spec: when \<open>NODE_ENV\<close>, read from the supplied environment,
  is exactly \<open>production\<close>, the dev-default is never used (the resolved raw value and the
  result for the key do not depend on the \<open>devDefault\<close> field); when it is anything else or
  absent, and the environment has no value for the key (\<open>undefined\<close>, or \<open>null\<close>, which
  \<open>??\<close> treats alike), a dev-default declared with a value other than \<open>undefined\<close> is the
  resolved raw value, whatever the regular default; and a value of the environment that is
  neither \<open>undefined\<close> nor \<open>null\<close> is the resolved raw value, whatever the defaults.
\<close>

theorem C1_default_precedence:
  "(strict_eq n (JStr ''production'') \<longrightarrow>
      rawValueOf environment n k (s\<lparr>devDefault := d'\<rparr>) = rawValueOf environment n k s
      \<and> try_key environment n k (s\<lparr>devDefault := d'\<rparr>) = try_key environment n k s)
   \<and> (\<not> strict_eq n (JStr ''production'') \<and> nullish (readRawEnvValue environment k)
        \<and> devDefault s = Some d \<and> d \<noteq> JUndefined \<longrightarrow>
      rawValueOf environment n k s = d)
   \<and> (\<not> nullish (readRawEnvValue environment k) \<longrightarrow>
      rawValueOf environment n k s = readRawEnvValue environment k)"
proof (intro conjI impI)
  assume prod: "strict_eq n (JStr ''production'')"
  then show raw: "rawValueOf environment n k (s\<lparr>devDefault := d'\<rparr>) = rawValueOf environment n k s"
    by (simp add: rawValueOf_def devDefaultOf_def usingDevDefault_def)
  have falsy: "usingFalsyDefault environment n k (s\<lparr>devDefault := d'\<rparr>)
                 = usingFalsyDefault environment n k s"
    using prod raw by (simp add: usingFalsyDefault_def usingDevDefault_def)
  have fmt: "formatSpecDescription (s\<lparr>devDefault := d'\<rparr>) = formatSpecDescription s"
    by (simp add: formatSpecDescription_def)
  have val: "validateVar k (s\<lparr>devDefault := d'\<rparr>) v = validateVar k s v" for v
    by (simp add: validateVar_def split: parse_field.splits sum.splits)
  show "try_key environment n k (s\<lparr>devDefault := d'\<rparr>) = try_key environment n k s"
    by (simp add: try_key_def Let_def raw falsy fmt val)
next
  assume "\<not> strict_eq n (JStr ''production'') \<and> nullish (readRawEnvValue environment k)
            \<and> devDefault s = Some d \<and> d \<noteq> JUndefined"
  then show "rawValueOf environment n k s = d"
    by (simp add: rawValueOf_def devDefaultOf_def usingDevDefault_def nullish_coalesce_def
        hasOwnProperty_def get_prop_def strict_eq_def)
next
  assume "\<not> nullish (readRawEnvValue environment k)"
  then show "rawValueOf environment n k s = readRawEnvValue environment k"
    by (simp add: rawValueOf_def nullish_coalesce_def)
qed

theorem C1_default_precedence_witness:
  "(strict_eq (JStr ''production'') (JStr ''production'')
      \<and> rawValueOf no_environment (JStr ''production'') ''DB_HOST'' dev_spec = JStr ''db.internal'')
   \<and> (\<not> strict_eq (JStr ''staging'') (JStr ''production'')
        \<and> nullish (readRawEnvValue no_environment ''DB_HOST'')
        \<and> devDefault dev_spec = Some (JStr ''localhost'') \<and> JStr ''localhost'' \<noteq> JUndefined
        \<and> rawValueOf no_environment (JStr ''staging'') ''DB_HOST'' dev_spec = JStr ''localhost'')
   \<and> (\<not> nullish (readRawEnvValue svc_environment ''NAME'')
        \<and> rawValueOf svc_environment (JStr ''staging'') ''NAME'' dev_spec = JStr ''svc'')"
proof -
  have p: "strict_eq (JStr ''production'') (JStr ''production'')"
    by (simp add: strict_eq_def)
  have upd: "dev_spec = (plain_spec\<lparr>default_val := Some (JStr ''db.internal'')\<rparr>)
                           \<lparr>devDefault := Some (JStr ''localhost'')\<rparr>"
    by (simp add: dev_spec_def)
  have "rawValueOf no_environment (JStr ''production'') ''DB_HOST'' dev_spec
          = rawValueOf no_environment (JStr ''production'') ''DB_HOST''
              (plain_spec\<lparr>default_val := Some (JStr ''db.internal'')\<rparr>)"
    unfolding upd using C1_default_precedence [where n = "JStr ''production''"] p by blast
  also have "\<dots> = JStr ''db.internal''"
    by (simp add: eval_defs no_environment_def plain_spec_def)
  finally have c1: "rawValueOf no_environment (JStr ''production'') ''DB_HOST'' dev_spec
                      = JStr ''db.internal''" .
  have h2: "\<not> strict_eq (JStr ''staging'') (JStr ''production'')
        \<and> nullish (readRawEnvValue no_environment ''DB_HOST'')
        \<and> devDefault dev_spec = Some (JStr ''localhost'') \<and> JStr ''localhost'' \<noteq> JUndefined"
    by (simp add: eval_defs no_environment_def dev_spec_def plain_spec_def)
  have c2: "rawValueOf no_environment (JStr ''staging'') ''DB_HOST'' dev_spec = JStr ''localhost''"
    using C1_default_precedence [where n = "JStr ''staging''" and environment = no_environment
        and k = "''DB_HOST''" and s = dev_spec]
      h2 by blast
  have h3: "\<not> nullish (readRawEnvValue svc_environment ''NAME'')"
    by (simp add: eval_defs svc_environment_def)
  have "rawValueOf svc_environment (JStr ''staging'') ''NAME'' dev_spec
          = readRawEnvValue svc_environment ''NAME''"
    using C1_default_precedence [where n = "JStr ''staging''" and environment = svc_environment
        and k = "''NAME''" and s = dev_spec]
      h3 by blast
  then have c3: "rawValueOf svc_environment (JStr ''staging'') ''NAME'' dev_spec = JStr ''svc''"
    by (simp add: eval_defs svc_environment_def)
  from p c1 h2 c2 h3 c3 show ?thesis by blast
qed

section \<open>Aggregation of failures\<close>

text \<open>
  C2. When \<open>options.reporter\<close> is not \<open>null\<close> (a function, or absent, also when no options
  are passed), and the keys of the spec object are distinct, as the keys of an object are:
  the loop completes without throwing and the reporter is called with its two objects;
  every key whose \<open>try\<close> block fails has that failure in the error map; every key whose
  \<open>try\<close> block succeeds has its value (or nothing, when it was left out) in the output and
  no entry in the error map; the keys of the error map and of the output are disjoint, and
  all of them are declared keys.
\<close>

theorem C2_failures_collected:
  assumes "reporter (effective_options dm options_arg) \<noteq> ReporterNull"
    and "distinct (map fst specs)"
  shows "\<exists>who output errs.
           validation_loop environment (readRawEnvValue environment ''NODE_ENV'')
             (reporter (effective_options dm options_arg)) specs (Map.empty, Map.empty)
             = Inr (output, errs)
         \<and> fst (cleanEnv dr dm environment specs options_arg)
             = [ReporterCalled who \<lparr>errors = errs, env = output\<rparr>]
         \<and> (\<forall>k s e. (k, s) \<in> set specs
               \<and> try_key environment (readRawEnvValue environment ''NODE_ENV'') k s = Inl e
               \<longrightarrow> errs k = Some e)
         \<and> (\<forall>k s v. (k, s) \<in> set specs
               \<and> try_key environment (readRawEnvValue environment ''NODE_ENV'') k s = Inr v
               \<longrightarrow> output k = v \<and> errs k = None)
         \<and> dom output \<inter> dom errs = {}
         \<and> dom output \<union> dom errs \<subseteq> fst ` set specs"
proof -
  let ?n = "readRawEnvValue environment ''NODE_ENV''"
  let ?rep = "reporter (effective_options dm options_arg)"
  from validation_loop_total [OF assms(1)]
  obtain out errs where
    loop: "validation_loop environment ?n ?rep specs (Map.empty, Map.empty) = Inr (out, errs)"
    by blast
  obtain who rp where ch: "choose_reporter dr ?rep = (who, rp)"
    by (cases "choose_reporter dr ?rep")
  have tr: "fst (cleanEnv dr dm environment specs options_arg)
              = [ReporterCalled who \<lparr>errors = errs, env = out\<rparr>]"
    by (simp add: cleanEnv_def Let_def loop ch split: reporter_effect.splits sum.splits)
  note key = validation_loop_key [OF assms(2) loop]
  have fails: "errs k = Some e \<and> out k = None"
    if "(k, s) \<in> set specs" "try_key environment ?n k s = Inl e" for k s e
    using key [OF that(1)] that(2) by simp
  have oks: "out k = v \<and> errs k = None"
    if "(k, s) \<in> set specs" "try_key environment ?n k s = Inr v" for k s v
    using key [OF that(1)] that(2) by (cases v) simp_all
  have outside: "out k = None \<and> errs k = None" if "k \<notin> fst ` set specs" for k
    using validation_loop_frame [OF loop that] by simp
  have one: "out k = None \<or> errs k = None" for k
  proof (cases "k \<in> fst ` set specs")
    case False
    then show ?thesis using outside by simp
  next
    case True
    then obtain s where mem: "(k, s) \<in> set specs" by force
    show ?thesis
    proof (cases "try_key environment ?n k s")
      case (Inl e)
      then show ?thesis using fails [OF mem] by simp
    next
      case (Inr v)
      then show ?thesis using oks [OF mem] by simp
    qed
  qed
  have disj: "dom out \<inter> dom errs = {}"
  proof -
    have False if "k \<in> dom out" "k \<in> dom errs" for k
      using one [of k] that by auto
    then show ?thesis by blast
  qed
  have sub: "dom out \<union> dom errs \<subseteq> fst ` set specs"
  proof
    fix k
    assume "k \<in> dom out \<union> dom errs"
    then have "out k \<noteq> None \<or> errs k \<noteq> None" by auto
    then show "k \<in> fst ` set specs" using outside [of k] by (cases "k \<in> fst ` set specs") auto
  qed
  from loop tr fails oks disj sub show ?thesis by blast
qed

theorem C2_failures_collected_witness:
  "reporter (effective_options defaultMiddlewares_model None) \<noteq> ReporterNull
   \<and> distinct (map fst two_specs)
   \<and> (\<exists>who output errs.
         fst (cleanEnv defaultReporter_model defaultMiddlewares_model svc_environment two_specs None)
           = [ReporterCalled who \<lparr>errors = errs, env = output\<rparr>]
       \<and> errs ''API_KEY'' = Some (EnvMissingError ''undefined'')
       \<and> output ''NAME'' = Some (JStr ''svc'') \<and> errs ''NAME'' = None
       \<and> dom output \<inter> dom errs = {})"
proof -
  have h1: "reporter (effective_options defaultMiddlewares_model None) \<noteq> ReporterNull"
    by (simp add: effective_options_def)
  have h2: "distinct (map fst two_specs)"
    by (simp add: two_specs_def)
  from C2_failures_collected [OF h1 h2, where environment = svc_environment
      and dr = defaultReporter_model]
  obtain who out errs where
    tr: "fst (cleanEnv defaultReporter_model defaultMiddlewares_model svc_environment two_specs None)
           = [ReporterCalled who \<lparr>errors = errs, env = out\<rparr>]"
    and fails: "\<forall>k s e. (k, s) \<in> set two_specs
               \<and> try_key svc_environment (readRawEnvValue svc_environment ''NODE_ENV'') k s = Inl e
               \<longrightarrow> errs k = Some e"
    and oks: "\<forall>k s v. (k, s) \<in> set two_specs
               \<and> try_key svc_environment (readRawEnvValue svc_environment ''NODE_ENV'') k s = Inr v
               \<longrightarrow> out k = v \<and> errs k = None"
    and disj: "dom out \<inter> dom errs = {}"
    by blast
  have m1: "(''API_KEY'', plain_spec) \<in> set two_specs"
    and m2: "(''NAME'', plain_spec) \<in> set two_specs"
    by (simp_all add: two_specs_def)
  from fails m1 try_key_API_KEY have e1: "errs ''API_KEY'' = Some (EnvMissingError ''undefined'')"
    by blast
  from oks m2 try_key_NAME have e2: "out ''NAME'' = Some (JStr ''svc'') \<and> errs ''NAME'' = None"
    by blast
  from tr e1 e2 disj have "\<exists>who output errs.
         fst (cleanEnv defaultReporter_model defaultMiddlewares_model svc_environment two_specs None)
           = [ReporterCalled who \<lparr>errors = errs, env = output\<rparr>]
       \<and> errs ''API_KEY'' = Some (EnvMissingError ''undefined'')
       \<and> output ''NAME'' = Some (JStr ''svc'') \<and> errs ''NAME'' = None
       \<and> dom output \<inter> dom errs = {}"
    by blast
  with h1 h2 show ?thesis by blast
qed

section \<open>Classification of the failures of validateVar\<close>

text \<open>
  C3, as stated, fails: a declared \<open>choices\<close> field that is not an array but is falsy
  (\<open>null\<close> here) raises no \<open>TypeError\<close>; \<open>if (spec.choices)\<close> skips the whole check, and the
  parsed value is returned.
\<close>

theorem C3_counterexample:
  "choices null_choices_spec = Some (NonArray JNull)
   \<and> validateVar ''NODE_ENV'' null_choices_spec (JStr ''qa'') = Inr (JStr ''qa'')"
  by (simp add: validateVar_def check_choices_def null_choices_spec_def plain_spec_def
      accept_parse_def nullish_def)

text \<open>
  C3, amended. For every key, spec and raw value, \<open>validateVar\<close> fails with the \<open>EnvError\<close>
  \<open>Invalid spec\<close> when \<open>_parse\<close> is not a function, and with what the parser throws when it
  throws. When the parser returns a value: a \<open>choices\<close> field that is truthy and not an
  array gives the \<open>TypeError\<close>; an array that does not include the value gives the
  \<open>EnvError\<close> \<open>not in choices\<close>, for a value and an array that can be printed in the
  message; when the check of the choices passes (no field, a falsy field, or an array that
  includes the value), a value that is \<open>null\<close> or \<open>undefined\<close> gives the \<open>EnvError\<close>
  \<open>Invalid value\<close>, and any other value is returned.
\<close>

theorem C3_validateVar_classification:
  "(parse s = NotFunction \<longrightarrow>
      validateVar name s raw = Inl (EnvError (''Invalid spec for '' @ quoted name)))
   \<and> (parse s = Function f \<and> f raw = Inl e \<longrightarrow> validateVar name s raw = Inl e)
   \<and> (parse s = Function f \<and> f raw = Inr v \<and> choices s = Some (NonArray x) \<and> truthy x \<longrightarrow>
      validateVar name s raw
        = Inl (TypeError (quoted ''choices'' @ '' must be an array (in spec for ''
                            @ quoted name @ '')'')))
   \<and> (parse s = Function f \<and> f raw = Inr v \<and> choices s = Some (Array cs) \<and> v \<notin> set cs
        \<and> to_string v = Inr sv \<and> array_to_string cs = Inr sc \<longrightarrow>
      validateVar name s raw
        = Inl (EnvError (''Value '' @ quoted sv @ '' not in choices ['' @ sc @ '']'')))
   \<and> (parse s = Function f \<and> f raw = Inr v
        \<and> (choices s = None \<or> (\<exists>y. choices s = Some (NonArray y) \<and> \<not> truthy y)
             \<or> (\<exists>ys. choices s = Some (Array ys) \<and> v \<in> set ys))
        \<and> nullish v \<longrightarrow>
      validateVar name s raw = Inl (EnvError (''Invalid value for env var '' @ quoted name)))
   \<and> (parse s = Function f \<and> f raw = Inr v
        \<and> (choices s = None \<or> (\<exists>y. choices s = Some (NonArray y) \<and> \<not> truthy y)
             \<or> (\<exists>ys. choices s = Some (Array ys) \<and> v \<in> set ys))
        \<and> \<not> nullish v \<longrightarrow>
      validateVar name s raw = Inr v)"
proof -
  have pass: "check_choices name (choices s) v = None"
    if "choices s = None \<or> (\<exists>y. choices s = Some (NonArray y) \<and> \<not> truthy y)
          \<or> (\<exists>ys. choices s = Some (Array ys) \<and> v \<in> set ys)"
    using that by (auto simp: check_choices_def)
  show ?thesis
  proof (intro conjI impI)
    assume "parse s = NotFunction"
    then show "validateVar name s raw = Inl (EnvError (''Invalid spec for '' @ quoted name))"
      by (simp add: validateVar_def)
  next
    assume "parse s = Function f \<and> f raw = Inl e"
    then show "validateVar name s raw = Inl e"
      by (simp add: validateVar_def)
  next
    assume "parse s = Function f \<and> f raw = Inr v \<and> choices s = Some (NonArray x) \<and> truthy x"
    then show "validateVar name s raw
        = Inl (TypeError (quoted ''choices'' @ '' must be an array (in spec for ''
                            @ quoted name @ '')''))"
      by (simp add: validateVar_def check_choices_def)
  next
    assume "parse s = Function f \<and> f raw = Inr v \<and> choices s = Some (Array cs) \<and> v \<notin> set cs
        \<and> to_string v = Inr sv \<and> array_to_string cs = Inr sc"
    then show "validateVar name s raw
        = Inl (EnvError (''Value '' @ quoted sv @ '' not in choices ['' @ sc @ '']''))"
      by (simp add: validateVar_def check_choices_def)
  next
    assume a: "parse s = Function f \<and> f raw = Inr v
        \<and> (choices s = None \<or> (\<exists>y. choices s = Some (NonArray y) \<and> \<not> truthy y)
             \<or> (\<exists>ys. choices s = Some (Array ys) \<and> v \<in> set ys))
        \<and> nullish v"
    then have "check_choices name (choices s) v = None" using pass by blast
    with a show "validateVar name s raw
                   = Inl (EnvError (''Invalid value for env var '' @ quoted name))"
      by (simp add: validateVar_def)
  next
    assume a: "parse s = Function f \<and> f raw = Inr v
        \<and> (choices s = None \<or> (\<exists>y. choices s = Some (NonArray y) \<and> \<not> truthy y)
             \<or> (\<exists>ys. choices s = Some (Array ys) \<and> v \<in> set ys))
        \<and> \<not> nullish v"
    then have "check_choices name (choices s) v = None" using pass by blast
    with a show "validateVar name s raw = Inr v"
      by (simp add: validateVar_def)
  qed
qed

theorem C3_validateVar_classification_witness:
  "validateVar ''PORT'' (plain_spec\<lparr>parse := NotFunction\<rparr>) (JStr ''80'')
     = Inl (EnvError (''Invalid spec for '' @ quoted ''PORT''))
   \<and> validateVar ''PORT'' failing_spec (JStr ''80'') = Inl (EnvError ''Invalid input'')
   \<and> validateVar ''NODE_ENV'' string_choices_spec (JStr ''qa'')
       = Inl (TypeError (quoted ''choices'' @ '' must be an array (in spec for ''
                           @ quoted ''NODE_ENV'' @ '')''))
   \<and> validateVar ''NODE_ENV'' mode_spec (JStr ''qa'')
       = Inl (EnvError (''Value '' @ quoted ''qa'' @ '' not in choices [develop,production]''))
   \<and> validateVar ''PORT'' (plain_spec\<lparr>parse := Function null_parse\<rparr>) (JStr ''80'')
       = Inl (EnvError (''Invalid value for env var '' @ quoted ''PORT''))
   \<and> validateVar ''NODE_ENV'' mode_spec (JStr ''develop'') = Inr (JStr ''develop'')"
proof -
  note c = C3_validateVar_classification
  have w1: "validateVar ''PORT'' (plain_spec\<lparr>parse := NotFunction\<rparr>) (JStr ''80'')
              = Inl (EnvError (''Invalid spec for '' @ quoted ''PORT''))"
    using c [where s = "plain_spec\<lparr>parse := NotFunction\<rparr>"] by simp
  have "parse failing_spec = Function reject_parse
          \<and> reject_parse (JStr ''80'') = Inl (EnvError ''Invalid input'')"
    by (simp add: failing_spec_def reject_parse_def)
  then have w2: "validateVar ''PORT'' failing_spec (JStr ''80'') = Inl (EnvError ''Invalid input'')"
    using c [where s = failing_spec and f = reject_parse and raw = "JStr ''80''"] by blast
  have "parse string_choices_spec = Function accept_parse
          \<and> accept_parse (JStr ''qa'') = Inr (JStr ''qa'')
          \<and> choices string_choices_spec = Some (NonArray (JStr ''develop,production''))
          \<and> truthy (JStr ''develop,production'')"
    by (simp add: string_choices_spec_def plain_spec_def accept_parse_def)
  then have w3: "validateVar ''NODE_ENV'' string_choices_spec (JStr ''qa'')
       = Inl (TypeError (quoted ''choices'' @ '' must be an array (in spec for ''
                           @ quoted ''NODE_ENV'' @ '')''))"
    using c [where s = string_choices_spec and f = accept_parse and raw = "JStr ''qa''"
        and v = "JStr ''qa''" and x = "JStr ''develop,production''"] by blast
  have "parse mode_spec = Function accept_parse
          \<and> accept_parse (JStr ''qa'') = Inr (JStr ''qa'')
          \<and> choices mode_spec = Some (Array [JStr ''develop'', JStr ''production''])
          \<and> JStr ''qa'' \<notin> set [JStr ''develop'', JStr ''production'']
          \<and> to_string (JStr ''qa'') = Inr ''qa''
          \<and> array_to_string [JStr ''develop'', JStr ''production''] = Inr ''develop,production''"
    by (simp add: mode_spec_def plain_spec_def accept_parse_def join_element_def nullish_def)
  then have "validateVar ''NODE_ENV'' mode_spec (JStr ''qa'')
       = Inl (EnvError (''Value '' @ quoted ''qa'' @ '' not in choices [''
                          @ ''develop,production'' @ '']''))"
    using c [where s = mode_spec and f = accept_parse and raw = "JStr ''qa''"
        and v = "JStr ''qa''" and cs = "[JStr ''develop'', JStr ''production'']"
        and sv = "''qa''" and sc = "''develop,production''" and name = "''NODE_ENV''"]
    by blast
  then have w4: "validateVar ''NODE_ENV'' mode_spec (JStr ''qa'')
       = Inl (EnvError (''Value '' @ quoted ''qa'' @ '' not in choices [develop,production]''))"
    by simp
  have "parse (plain_spec\<lparr>parse := Function null_parse\<rparr>) = Function null_parse
          \<and> null_parse (JStr ''80'') = Inr JNull
          \<and> choices (plain_spec\<lparr>parse := Function null_parse\<rparr>) = None
          \<and> nullish JNull"
    by (simp add: plain_spec_def null_parse_def nullish_def)
  then have w5: "validateVar ''PORT'' (plain_spec\<lparr>parse := Function null_parse\<rparr>) (JStr ''80'')
       = Inl (EnvError (''Invalid value for env var '' @ quoted ''PORT''))"
    using c [where s = "plain_spec\<lparr>parse := Function null_parse\<rparr>" and f = null_parse
        and raw = "JStr ''80''" and v = JNull and name = "''PORT''"]
    by blast
  have "parse mode_spec = Function accept_parse
          \<and> accept_parse (JStr ''develop'') = Inr (JStr ''develop'')
          \<and> choices mode_spec = Some (Array [JStr ''develop'', JStr ''production''])
          \<and> JStr ''develop'' \<in> set [JStr ''develop'', JStr ''production'']
          \<and> \<not> nullish (JStr ''develop'')"
    by (simp add: mode_spec_def plain_spec_def accept_parse_def nullish_def)
  then have w6: "validateVar ''NODE_ENV'' mode_spec (JStr ''develop'') = Inr (JStr ''develop'')"
    using c [where s = mode_spec and f = accept_parse and raw = "JStr ''develop''"
        and v = "JStr ''develop''" and name = "''NODE_ENV''"]
    by blast
  from w1 w2 w3 w4 w5 w6 show ?thesis by blast
qed

section \<open>Falsy defaults\<close>

text \<open>
  C4. For a declared key (the keys being distinct) with no value in the environment whose
  resolved raw value is a falsy value \<open>d\<close> that the spec declares as its default, or as its
  dev-default in use, and for a loop that completes: when \<open>d\<close> is \<open>undefined\<close>, declared as
  such, the key is left out, with no entry in the output nor in the error map; otherwise
  the loop raises no missing-value error and does not skip the key: the \<open>try\<close> block hands
  \<open>d\<close> to \<open>validateVar\<close> and does what \<open>validateVar\<close> does, so the parsed value of a default
  that \<open>validateVar\<close> accepts is assigned to the key, which has no entry in the error map.
\<close>

theorem C4_falsy_default:
  assumes "distinct (map fst specs)"
    and "(k, s) \<in> set specs"
    and "validation_loop environment n rep specs (Map.empty, Map.empty) = Inr (out, errs)"
    and "nullish (readRawEnvValue environment k)"
    and "default_val s = Some d \<or> (usingDevDefault n s \<and> devDefault s = Some d)"
    and "rawValueOf environment n k s = d"
    and "\<not> truthy d"
  shows "(d = JUndefined \<longrightarrow> try_key environment n k s = Inr None
                           \<and> out k = None \<and> errs k = None)
       \<and> (d \<noteq> JUndefined \<longrightarrow>
            try_key environment n k s
              = (case validateVar k s d of Inl e \<Rightarrow> Inl e | Inr v \<Rightarrow> Inr (Some v))
          \<and> (\<forall>v. validateVar k s d = Inr v \<longrightarrow> out k = Some v \<and> errs k = None))"
proof -
  note key = validation_loop_key [OF assms(1) assms(3) assms(2)]
  have nosym: "\<not> isTestOnlySymbol d"
    using assms(7) by (auto simp: isTestOnlySymbol_def)
  have u: "try_key environment n k s = Inr None \<and> out k = None \<and> errs k = None"
    if "d = JUndefined"
  proof -
    from assms(5) have "usingFalsyDefault environment n k s"
      unfolding usingFalsyDefault_def assms(6) that
      by (auto simp: hasOwnProperty_def get_prop_def strict_eq_def devDefaultOf_def)
    then have "try_key environment n k s = Inr None"
      using nosym by (simp add: try_key_def assms(6) that strict_eq_def isTestOnlySymbol_def)
    with key show ?thesis by simp
  qed
  have t: "try_key environment n k s
             = (case validateVar k s d of Inl e \<Rightarrow> Inl e | Inr v \<Rightarrow> Inr (Some v))"
    if "d \<noteq> JUndefined"
    using nosym that by (simp add: try_key_def assms(6) strict_eq_def)
  have v: "out k = Some v \<and> errs k = None" if "d \<noteq> JUndefined" "validateVar k s d = Inr v" for v
    using key t [OF that(1)] that(2) by simp
  from u t v show ?thesis by blast
qed

theorem C4_falsy_default_witness:
  "distinct (map fst falsy_specs)
   \<and> nullish (readRawEnvValue no_environment ''GREETING'')
   \<and> rawValueOf no_environment JUndefined ''GREETING'' empty_default_spec = JStr ''''
   \<and> \<not> truthy (JStr '''')
   \<and> rawValueOf no_environment JUndefined ''RETRIES'' zero_spec = JNum 0
   \<and> \<not> truthy (JNum 0)
   \<and> rawValueOf no_environment JUndefined ''VERBOSE'' false_spec = JBool False
   \<and> \<not> truthy (JBool False)
   \<and> rawValueOf no_environment JUndefined ''PROXY'' undefined_default_spec = JUndefined
   \<and> try_key no_environment JUndefined ''PROXY'' undefined_default_spec = Inr None
   \<and> (\<exists>out errs.
         validation_loop no_environment JUndefined ReporterAbsent falsy_specs
           (Map.empty, Map.empty) = Inr (out, errs)
       \<and> out ''GREETING'' = Some (JStr '''') \<and> errs ''GREETING'' = None
       \<and> out ''RETRIES'' = Some (JNum 0) \<and> errs ''RETRIES'' = None
       \<and> out ''VERBOSE'' = Some (JBool False) \<and> errs ''VERBOSE'' = None
       \<and> out ''PROXY'' = None \<and> errs ''PROXY'' = None)"
proof -
  have h1: "distinct (map fst falsy_specs)"
    by (simp add: falsy_specs_def)
  have m1: "(''GREETING'', empty_default_spec) \<in> set falsy_specs"
    and m2: "(''RETRIES'', zero_spec) \<in> set falsy_specs"
    and m3: "(''VERBOSE'', false_spec) \<in> set falsy_specs"
    and m4: "(''PROXY'', undefined_default_spec) \<in> set falsy_specs"
    by (simp_all add: falsy_specs_def)
  have nn: "ReporterAbsent \<noteq> ReporterNull" by simp
  from validation_loop_total [OF nn, of no_environment JUndefined falsy_specs Map.empty Map.empty]
  obtain out errs where
    h3: "validation_loop no_environment JUndefined ReporterAbsent falsy_specs
           (Map.empty, Map.empty) = Inr (out, errs)"
    by blast
  have h4: "nullish (readRawEnvValue no_environment key)" for key
    by (simp add: eval_defs no_environment_def)
  have d1: "default_val empty_default_spec = Some (JStr '''')"
    and d2: "default_val zero_spec = Some (JNum 0)"
    and d3: "default_val false_spec = Some (JBool False)"
    and d4: "default_val undefined_default_spec = Some JUndefined"
    by (simp_all add: empty_default_spec_def zero_spec_def false_spec_def
        undefined_default_spec_def)
  have r1: "rawValueOf no_environment JUndefined ''GREETING'' empty_default_spec = JStr ''''"
    and r2: "rawValueOf no_environment JUndefined ''RETRIES'' zero_spec = JNum 0"
    and r3: "rawValueOf no_environment JUndefined ''VERBOSE'' false_spec = JBool False"
    and r4: "rawValueOf no_environment JUndefined ''PROXY'' undefined_default_spec = JUndefined"
    by (simp_all add: eval_defs no_environment_def empty_default_spec_def zero_spec_def
        false_spec_def undefined_default_spec_def plain_spec_def)
  have f1: "\<not> truthy (JStr '''')" and f2: "\<not> truthy (JNum 0)"
    and f3: "\<not> truthy (JBool False)" and f4: "\<not> truthy JUndefined"
    by simp_all
  have v1: "validateVar ''GREETING'' empty_default_spec (JStr '''') = Inr (JStr '''')"
    and v2: "validateVar ''RETRIES'' zero_spec (JNum 0) = Inr (JNum 0)"
    and v3: "validateVar ''VERBOSE'' false_spec (JBool False) = Inr (JBool False)"
    by (simp_all add: validateVar_def check_choices_def empty_default_spec_def zero_spec_def
        false_spec_def plain_spec_def accept_parse_def nullish_def)
  from C4_falsy_default [OF h1 m1 h3 h4 disjI1 [OF d1] r1 f1] v1
  have c1: "out ''GREETING'' = Some (JStr '''') \<and> errs ''GREETING'' = None"
    by simp
  from C4_falsy_default [OF h1 m2 h3 h4 disjI1 [OF d2] r2 f2] v2
  have c2: "out ''RETRIES'' = Some (JNum 0) \<and> errs ''RETRIES'' = None"
    by simp
  from C4_falsy_default [OF h1 m3 h3 h4 disjI1 [OF d3] r3 f3] v3
  have c3: "out ''VERBOSE'' = Some (JBool False) \<and> errs ''VERBOSE'' = None"
    by simp
  from C4_falsy_default [OF h1 m4 h3 h4 disjI1 [OF d4] r4 f4]
  have c4: "try_key no_environment JUndefined ''PROXY'' undefined_default_spec = Inr None
            \<and> out ''PROXY'' = None \<and> errs ''PROXY'' = None"
    by simp
  from h3 c1 c2 c3 c4 have "\<exists>out errs.
         validation_loop no_environment JUndefined ReporterAbsent falsy_specs
           (Map.empty, Map.empty) = Inr (out, errs)
       \<and> out ''GREETING'' = Some (JStr '''') \<and> errs ''GREETING'' = None
       \<and> out ''RETRIES'' = Some (JNum 0) \<and> errs ''RETRIES'' = None
       \<and> out ''VERBOSE'' = Some (JBool False) \<and> errs ''VERBOSE'' = None
       \<and> out ''PROXY'' = None \<and> errs ''PROXY'' = None"
    by blast
  with h1 h4 [of "''GREETING''"] r1 f1 r2 f2 r3 f3 r4 c4 show ?thesis by blast
qed

section \<open>Throwing on the first failure\<close>

text \<open>
  C5. When \<open>options.reporter\<close> is \<open>null\<close> and the \<open>try\<close> block of at least one declared key
  fails, the spec object splits into the keys before the first failing key, which all
  succeed, that key, and the keys after it; \<open>cleanEnv\<close> throws the error of that key, with no
  reporter called, and it does so whatever keys and specs follow: no later key is evaluated.
\<close>

theorem C5_first_failure_thrown:
  assumes "reporter opts = ReporterNull"
    and "\<exists>(k, s) \<in> set specs.
           isl (try_key environment (readRawEnvValue environment ''NODE_ENV'') k s)"
  shows "\<exists>pre k s post e.
           specs = pre @ (k, s) # post
         \<and> (\<forall>(k', s') \<in> set pre.
               \<not> isl (try_key environment (readRawEnvValue environment ''NODE_ENV'') k' s'))
         \<and> try_key environment (readRawEnvValue environment ''NODE_ENV'') k s = Inl e
         \<and> cleanEnv dr dm environment specs (Some opts) = ([], Threw e)
         \<and> (\<forall>later. cleanEnv dr dm environment (pre @ (k, s) # later) (Some opts)
                        = ([], Threw e))"
proof -
  let ?n = "readRawEnvValue environment ''NODE_ENV''"
  let ?P = "\<lambda>x. isl (try_key environment ?n (fst x) (snd x))"
  from assms(2) have "\<exists>x \<in> set specs. ?P x" by (force simp: case_prod_beta)
  from split_list_first_prop [OF this]
  obtain pre x post where sp: "specs = pre @ x # post" and px: "?P x"
    and before: "\<forall>y \<in> set pre. \<not> ?P y"
    by blast
  obtain k s where x: "x = (k, s)" by (cases x)
  from px obtain e where e: "try_key environment ?n k s = Inl e"
    by (auto simp: x isl_def)
  from before have ok: "\<forall>(k', s') \<in> set pre. \<not> isl (try_key environment ?n k' s')"
    by auto
  have thrown: "cleanEnv dr dm environment (pre @ (k, s) # later) (Some opts) = ([], Threw e)"
    for later
  proof -
    from validation_loop_prefix [OF ok]
    obtain st' where pre: "validation_loop environment ?n ReporterNull pre (Map.empty, Map.empty)
                             = Inr st'"
      by blast
    obtain out' errs' where st': "st' = (out', errs')" by (cases st')
    have "validation_loop environment ?n ReporterNull (pre @ (k, s) # later)
            (Map.empty, Map.empty) = Inl e"
      by (simp add: validation_loop_append pre st' e)
    then show ?thesis
      by (intro cleanEnv_loop_throws) (simp add: effective_options_def assms(1))
  qed
  from thrown [of post] have "cleanEnv dr dm environment specs (Some opts) = ([], Threw e)"
    by (simp add: sp x)
  with sp x ok e thrown show ?thesis by blast
qed

theorem C5_first_failure_thrown_witness:
  "reporter throwing_options = ReporterNull
   \<and> isl (try_key svc_environment (readRawEnvValue svc_environment ''NODE_ENV'')
            ''API_KEY'' plain_spec)
   \<and> cleanEnv defaultReporter_model defaultMiddlewares_model svc_environment two_specs
        (Some throwing_options) = ([], Threw (EnvMissingError ''undefined''))"
proof -
  let ?n = "readRawEnvValue svc_environment ''NODE_ENV''"
  have h1: "reporter throwing_options = ReporterNull"
    by (simp add: throwing_options_def)
  have f: "isl (try_key svc_environment ?n ''API_KEY'' plain_spec)"
    by (simp add: try_key_API_KEY)
  then have h2: "\<exists>(k, s) \<in> set two_specs. isl (try_key svc_environment ?n k s)"
    by (simp add: two_specs_def)
  from C5_first_failure_thrown [OF h1 h2, where dr = defaultReporter_model
      and dm = defaultMiddlewares_model]
  obtain pre k s post e where sp: "two_specs = pre @ (k, s) # post"
    and e: "try_key svc_environment ?n k s = Inl e"
    and th: "cleanEnv defaultReporter_model defaultMiddlewares_model svc_environment two_specs
               (Some throwing_options) = ([], Threw e)"
    by blast
  have "(k, s) \<in> set two_specs" unfolding sp by simp
  then have "(k, s) = (''API_KEY'', plain_spec) \<or> (k, s) = (''NAME'', plain_spec)"
    by (simp add: two_specs_def)
  with e try_key_API_KEY try_key_NAME have "e = EnvMissingError ''undefined''"
    by auto
  with th h1 f show ?thesis by simp
qed

section \<open>The reporter when options.reporter is null\<close>

text \<open>
  C6, as stated, fails: with \<open>reporter: null\<close> and an environment that passes validation,
  \<open>cleanEnv\<close> returns and the default reporter has been called, since
  \<open>options.reporter || defaultReporter\<close> falls back to it.
\<close>

theorem C6_counterexample:
  "cleanEnv defaultReporter_model defaultMiddlewares_model svc_environment
     [(''NAME'', plain_spec)] (Some throwing_options)
   = ([ReporterCalled DefaultReporter
         \<lparr>errors = Map.empty, env = [''NAME'' \<mapsto> JStr ''svc'']\<rparr>],
      Returned \<lparr>props = [''NAME'' \<mapsto> JStr ''svc''], frozen = True\<rparr>)"
  by (simp add: cleanEnv_def effective_options_def throwing_options_def try_key_NAME
      choose_reporter_def defaultReporter_model_def apply_middleware_def Object_freeze_def)

text \<open>
  C6, amended. When \<open>options.reporter\<close> is \<open>null\<close>, no error is ever handed to a reporter:
  either the loop throws the first failure and no reporter is called, or the loop completes
  and the default reporter is called exactly once, with an empty error map; the second is
  the case on every input on which \<open>cleanEnv\<close> returns.
\<close>

theorem C6_null_reporter:
  assumes "reporter opts = ReporterNull"
  shows "(\<exists>e. cleanEnv dr dm environment specs (Some opts) = ([], Threw e))
       \<or> (\<exists>out. fst (cleanEnv dr dm environment specs (Some opts))
                  = [ReporterCalled DefaultReporter \<lparr>errors = Map.empty, env = out\<rparr>])"
proof (cases "validation_loop environment (readRawEnvValue environment ''NODE_ENV'')
                ReporterNull specs (Map.empty, Map.empty)")
  case (Inl e)
  then have "cleanEnv dr dm environment specs (Some opts) = ([], Threw e)"
    by (intro cleanEnv_loop_throws) (simp add: effective_options_def assms)
  then show ?thesis by blast
next
  case (Inr st)
  obtain out errs where st: "st = (out, errs)" by (cases st)
  from Inr have errs: "errs = Map.empty"
    unfolding st by (rule validation_loop_null_errors)
  have "fst (cleanEnv dr dm environment specs (Some opts))
          = [ReporterCalled DefaultReporter \<lparr>errors = Map.empty, env = out\<rparr>]"
    using cleanEnv_loop_returns [where options_arg = "Some opts" and dm = dm and dr = dr
        and environment = environment and specs = specs and out = out and errs = errs]
      Inr
    by (simp add: effective_options_def assms st errs choose_reporter_def)
  then show ?thesis by blast
qed

theorem C6_null_reporter_witness:
  "reporter throwing_options = ReporterNull
   \<and> ((\<exists>e. cleanEnv defaultReporter_model defaultMiddlewares_model no_environment
              [(''NAME'', plain_spec)] (Some throwing_options) = ([], Threw e))
      \<or> (\<exists>out. fst (cleanEnv defaultReporter_model defaultMiddlewares_model no_environment
                        [(''NAME'', plain_spec)] (Some throwing_options))
                 = [ReporterCalled DefaultReporter \<lparr>errors = Map.empty, env = out\<rparr>]))"
proof -
  have h: "reporter throwing_options = ReporterNull"
    by (simp add: throwing_options_def)
  from h C6_null_reporter [OF h] show ?thesis by (rule conjI)
qed

section \<open>testOnly and the sentinel\<close>

text \<open>
  C7. \<open>testOnly(v)\<close> is \<open>v\<close> when \<open>NODE_ENV\<close>, which \<open>testOnly\<close> reads from \<open>process.env\<close>, is
  exactly \<open>test\<close>, and the sentinel \<open>testOnlySymbol\<close> otherwise; and for every key whose
  resolved raw value is the sentinel, the \<open>try\<close> block fails with an \<open>EnvMissingError\<close>
  whose message is \<open>formatSpecDescription(spec)\<close>, which depends on the \<open>desc\<close>, \<open>example\<close>
  and \<open>docs\<close> fields of the spec only.
\<close>

theorem C7_testOnly_sentinel:
  "(strict_eq (readRawEnvValue process_env ''NODE_ENV'') (JStr ''test'') \<longrightarrow>
      testOnly process_env v = v)
   \<and> (\<not> strict_eq (readRawEnvValue process_env ''NODE_ENV'') (JStr ''test'') \<longrightarrow>
      testOnly process_env v = TestOnlySymbol)
   \<and> (rawValueOf environment n k s = TestOnlySymbol \<longrightarrow>
      try_key environment n k s = Inl (EnvMissingError (formatSpecDescription s)))
   \<and> (desc s' = desc s \<and> example s' = example s \<and> docs s' = docs s \<longrightarrow>
      formatSpecDescription s' = formatSpecDescription s)"
  by (simp add: testOnly_def try_key_def isTestOnlySymbol_def formatSpecDescription_def)

theorem C7_testOnly_sentinel_witness:
  "strict_eq (readRawEnvValue test_environment ''NODE_ENV'') (JStr ''test'')
   \<and> testOnly test_environment (JStr ''stub'') = JStr ''stub''
   \<and> \<not> strict_eq (readRawEnvValue production_environment ''NODE_ENV'') (JStr ''test'')
   \<and> testOnly production_environment (JStr ''stub'') = TestOnlySymbol
   \<and> rawValueOf no_environment JUndefined ''API_KEY'' stub_spec = TestOnlySymbol
   \<and> try_key no_environment JUndefined ''API_KEY'' stub_spec
       = Inl (EnvMissingError (''API key (eg. '' @ quoted ''abc123''
                                 @ ''). See https://example.com/keys''))
   \<and> formatSpecDescription (stub_spec\<lparr>default_val := None, choices := Some (Array [])\<rparr>)
       = formatSpecDescription stub_spec"
proof -
  have c4: "formatSpecDescription (stub_spec\<lparr>default_val := None, choices := Some (Array [])\<rparr>)
              = formatSpecDescription stub_spec"
    using C7_testOnly_sentinel [where s = stub_spec
        and s' = "stub_spec\<lparr>default_val := None, choices := Some (Array [])\<rparr>"]
    by simp
  have h1: "strict_eq (readRawEnvValue test_environment ''NODE_ENV'') (JStr ''test'')"
    by (simp add: eval_defs test_environment_def)
  have h2: "\<not> strict_eq (readRawEnvValue production_environment ''NODE_ENV'') (JStr ''test'')"
    by (simp add: eval_defs production_environment_def)
  have h3: "rawValueOf no_environment JUndefined ''API_KEY'' stub_spec = TestOnlySymbol"
    by (simp add: eval_defs no_environment_def stub_spec_def plain_spec_def testOnly_def)
  have c1: "testOnly test_environment (JStr ''stub'') = JStr ''stub''"
    using C7_testOnly_sentinel [where process_env = test_environment] h1 by blast
  have c2: "testOnly production_environment (JStr ''stub'') = TestOnlySymbol"
    using C7_testOnly_sentinel [where process_env = production_environment] h2 by blast
  have "try_key no_environment JUndefined ''API_KEY'' stub_spec
          = Inl (EnvMissingError (formatSpecDescription stub_spec))"
    using C7_testOnly_sentinel [where environment = no_environment and n = JUndefined
        and k = "''API_KEY''" and s = stub_spec] h3 by blast
  then have c3: "try_key no_environment JUndefined ''API_KEY'' stub_spec
       = Inl (EnvMissingError (''API key (eg. '' @ quoted ''abc123''
                                 @ ''). See https://example.com/keys''))"
    by (simp add: formatSpecDescription_def stub_spec_def plain_spec_def)
  from h1 c1 h2 c2 h3 c3 c4 show ?thesis by blast
qed

section \<open>The default middleware\<close>

text \<open>
  C8, at an input where the code departs from it. Called with no options, \<open>cleanEnv\<close> applies
  the default catalog, which adds \<open>isProduction\<close> to the result. Called with the options
  \<open>{ reporter: logReporter }\<close>, which have no \<open>middleware\<close> field, it applies no stage at
  all: the default value of the parameter is not used, and the result has the validated
  keys only.
\<close>

theorem C8_default_middleware_dropped:
  "snd (cleanEnv defaultReporter_model defaultMiddlewares_model svc_environment
          [(''NAME'', plain_spec)] None)
     = Returned \<lparr>props = [''NAME'' \<mapsto> JStr ''svc'', ''isProduction'' \<mapsto> JBool False],
                  frozen = True\<rparr>
   \<and> middleware reporter_only_options = None
   \<and> snd (cleanEnv defaultReporter_model defaultMiddlewares_model svc_environment
            [(''NAME'', plain_spec)] (Some reporter_only_options))
       = Returned \<lparr>props = [''NAME'' \<mapsto> JStr ''svc''], frozen = True\<rparr>"
  by (simp add: cleanEnv_svc_default svc_config_def)
    (simp add: cleanEnv_def Let_def effective_options_def try_key_NAME
      choose_reporter_def reporter_only_options_def log_reporter_def apply_middleware_def
      Object_freeze_def)

section \<open>A dev-default declared as undefined\<close>

text \<open>
  C10. In a mode other than production, for a spec that declares \<open>devDefault\<close> with the value
  \<open>undefined\<close> and a key with no value in the environment: the resolved raw value is the
  regular default (\<open>undefined\<close> when none is declared); and when no regular default is
  declared, the \<open>try\<close> block leaves the key out without failing, so that, the keys being
  distinct, a loop that completes has no entry for the key in the output nor in the error
  map.
\<close>

theorem C10_undefined_devDefault:
  assumes "\<not> strict_eq n (JStr ''production'')"
    and "devDefault s = Some JUndefined"
    and "nullish (readRawEnvValue environment k)"
  shows "rawValueOf environment n k s = get_prop (default_val s)
       \<and> (default_val s = None \<longrightarrow>
            try_key environment n k s = Inr None
          \<and> (distinct (map fst specs) \<and> (k, s) \<in> set specs
               \<and> validation_loop environment n rep specs (Map.empty, Map.empty) = Inr (out, errs)
             \<longrightarrow> out k = None \<and> errs k = None))"
proof -
  have raw: "rawValueOf environment n k s = get_prop (default_val s)"
    using assms by (simp add: eval_defs)
  have skip: "try_key environment n k s = Inr None" if "default_val s = None"
    using assms that by (simp add: try_key_def eval_defs)
  have omitted: "out k = None \<and> errs k = None"
    if "default_val s = None" "distinct (map fst specs)" "(k, s) \<in> set specs"
      "validation_loop environment n rep specs (Map.empty, Map.empty) = Inr (out, errs)"
    using validation_loop_key [OF that(2) that(4) that(3)] skip [OF that(1)] by simp
  from raw skip omitted show ?thesis by blast
qed

theorem C10_undefined_devDefault_witness:
  "\<not> strict_eq JUndefined (JStr ''production'')
   \<and> devDefault devUndefined_spec = Some JUndefined
   \<and> devDefault optional_spec = Some JUndefined
   \<and> nullish (readRawEnvValue no_environment ''DB_HOST'')
   \<and> rawValueOf no_environment JUndefined ''DB_HOST'' devUndefined_spec = JStr ''db.internal''
   \<and> default_val optional_spec = None
   \<and> try_key no_environment JUndefined ''DB_HOST'' optional_spec = Inr None
   \<and> (\<exists>out errs.
         validation_loop no_environment JUndefined ReporterAbsent
           [(''NAME'', plain_spec), (''DB_HOST'', optional_spec)] (Map.empty, Map.empty)
           = Inr (out, errs)
       \<and> out ''DB_HOST'' = None \<and> errs ''DB_HOST'' = None
       \<and> errs ''NAME'' = Some (EnvMissingError ''undefined''))"
proof -
  let ?specs = "[(''NAME'', plain_spec), (''DB_HOST'', optional_spec)]"
  have h1: "\<not> strict_eq JUndefined (JStr ''production'')"
    by (simp add: strict_eq_def)
  have h2: "devDefault devUndefined_spec = Some JUndefined"
    by (simp add: devUndefined_spec_def)
  have h2': "devDefault optional_spec = Some JUndefined"
    by (simp add: optional_spec_def)
  have h3: "nullish (readRawEnvValue no_environment ''DB_HOST'')"
    by (simp add: eval_defs no_environment_def)
  have h4: "default_val optional_spec = None"
    by (simp add: optional_spec_def plain_spec_def)
  from C10_undefined_devDefault [OF h1 h2 h3]
  have "rawValueOf no_environment JUndefined ''DB_HOST'' devUndefined_spec
          = get_prop (default_val devUndefined_spec)"
    by blast
  then have c1: "rawValueOf no_environment JUndefined ''DB_HOST'' devUndefined_spec
                   = JStr ''db.internal''"
    by (simp add: devUndefined_spec_def plain_spec_def get_prop_def)
  from C10_undefined_devDefault [OF h1 h2' h3] h4
  have c2: "try_key no_environment JUndefined ''DB_HOST'' optional_spec = Inr None"
    by blast
  have d: "distinct (map fst ?specs)" and m: "(''DB_HOST'', optional_spec) \<in> set ?specs"
    by simp_all
  have nn: "ReporterAbsent \<noteq> ReporterNull" by simp
  from validation_loop_total [OF nn, of no_environment JUndefined ?specs Map.empty Map.empty]
  obtain out errs where
    loop: "validation_loop no_environment JUndefined ReporterAbsent ?specs (Map.empty, Map.empty)
             = Inr (out, errs)"
    by blast
  from C10_undefined_devDefault [OF h1 h2' h3, where specs = ?specs
      and rep = ReporterAbsent and out = out and errs = errs] h4 d m loop
  have c3: "out ''DB_HOST'' = None \<and> errs ''DB_HOST'' = None"
    by blast
  have "try_key no_environment JUndefined ''NAME'' plain_spec
          = Inl (EnvMissingError ''undefined'')"
    by (simp add: key_defs eval_defs no_environment_def plain_spec_def)
  with validation_loop_key [OF d loop, of "''NAME''" plain_spec]
  have c4: "errs ''NAME'' = Some (EnvMissingError ''undefined'')"
    by simp
  from loop c3 c4 have "\<exists>out errs.
         validation_loop no_environment JUndefined ReporterAbsent ?specs (Map.empty, Map.empty)
           = Inr (out, errs)
       \<and> out ''DB_HOST'' = None \<and> errs ''DB_HOST'' = None
       \<and> errs ''NAME'' = Some (EnvMissingError ''undefined'')"
    by blast
  with h1 h2 h2' h3 c1 h4 c2 show ?thesis by blast
qed

end
